theory Spec2Isabelle
  imports
    Complex_Main
    "HOL-Library.AList"
    "HOL-Library.Char_ord"
    "HOL-Library.List_Lexorder"
    "HOL-Library.Multiset"
begin

section \<open>Python values and strings\<close>

text \<open>
  The retrieval core of the operations-support assistant is Python. Its strings are
  modelled as \<^typ>\<open>string\<close>, a character being one code point in the range 0..255
  (Latin-1); \<open>str.lower\<close> and \<open>str.strip\<close> are written out for that range. Metadata
  values are typed \<open>Any\<close> in the source; the scalar values a document's metadata holds
  are the constructors of \<open>pyval\<close>. Python's unbounded integers are \<^typ>\<open>int\<close>.
\<close>

datatype pyval = PNone | PBool bool | PInt int | PStr string

text \<open>Truth value testing (\<open>if x:\<close>, \<open>not x\<close>, \<open>x or y\<close>).\<close>

fun truthy :: "pyval \<Rightarrow> bool" where
  "truthy PNone = False"
| "truthy (PBool b) = b"
| "truthy (PInt n) = (n \<noteq> 0)"
| "truthy (PStr s) = (s \<noteq> [])"

text \<open>\<open>str(x)\<close>: decimal digits for an integer, the string itself for a string.\<close>

fun dec_nat :: "nat \<Rightarrow> string" where
  "dec_nat n =
     (if n < 10 then [char_of (48 + n)]
      else dec_nat (n div 10) @ [char_of (48 + n mod 10)])"

declare dec_nat.simps [simp del]

fun py_str :: "pyval \<Rightarrow> string" where
  "py_str PNone = ''None''"
| "py_str (PBool b) = (if b then ''True'' else ''False'')"
| "py_str (PInt n) = (if n < 0 then CHR ''-'' # dec_nat (nat (- n)) else dec_nat (nat n))"
| "py_str (PStr s) = s"

text \<open>
  \<open>str.lower\<close> on code points below 256: the letters A..Z and the Latin-1 capitals
  U+00C0..U+00DE without the multiplication sign U+00D7 move up by 32.
\<close>

definition lower_char :: "char \<Rightarrow> char" where
  "lower_char c =
     (let n = (of_char c :: nat)
      in if (65 \<le> n \<and> n \<le> 90) \<or> (192 \<le> n \<and> n \<le> 222 \<and> n \<noteq> 215)
         then char_of (n + 32) else c)"

definition lower :: "string \<Rightarrow> string" where
  "lower s = map lower_char s"

text \<open>
  \<open>str.strip()\<close> without argument removes leading and trailing whitespace; below 256
  the whitespace code points are 9..13, 28..32, 133 and 160.
\<close>

definition isspace :: "char \<Rightarrow> bool" where
  "isspace c =
     (let n = (of_char c :: nat)
      in (9 \<le> n \<and> n \<le> 13) \<or> (28 \<le> n \<and> n \<le> 32) \<or> n = 133 \<or> n = 160)"

definition strip :: "string \<Rightarrow> string" where
  "strip s = rev (dropWhile isspace (rev (dropWhile isspace s)))"

text \<open>
  \<open>os.path.basename\<close> of \<open>posixpath\<close>: the part after the last slash, the whole path when
  it has none.
\<close>

fun basename :: "string \<Rightarrow> string" where
  "basename [] = []"
| "basename (c # cs) = (if CHR ''/'' \<in> set cs then basename cs
                         else if c = CHR ''/'' then cs else c # cs)"

text \<open>
  A \<open>dict\<close> keeps its keys in insertion order: it is an association list, read with
  \<^const>\<open>map_of\<close> (\<open>d.get(k)\<close>) and written with \<^const>\<open>AList.update\<close> (\<open>d[k] = v\<close>), which
  replaces the value of a key already present and appends a new key at the end. A dict
  is falsy exactly when it is empty.
\<close>

type_synonym 'v dict = "(string \<times> 'v) list"

section \<open>retrieval/filters.py\<close>

text \<open>
  A value of the filter dict is either a plain value (\<open>flt["service"] = service\<close>) or the
  nested dict \<open>{"$lte": v}\<close>.
\<close>

datatype filter_val = Plain pyval | Lte_dict pyval

type_synonym metadata_filter = "filter_val dict"

definition build_metadata_filter ::
  "string option \<Rightarrow> string option \<Rightarrow> int option \<Rightarrow> metadata_filter" where
  "build_metadata_filter source_type service max_priority =
     (let flt = [];
          flt = (case source_type of
                   Some s \<Rightarrow> if s \<noteq> [] then AList.update ''source_type'' (Plain (PStr s)) flt
                             else flt
                 | None \<Rightarrow> flt);
          flt = (case service of
                   Some s \<Rightarrow> if s \<noteq> [] \<and> s \<noteq> ''unknown''
                             then AList.update ''service'' (Plain (PStr s)) flt
                             else flt
                 | None \<Rightarrow> flt);
          flt = (case max_priority of
                   Some p \<Rightarrow> AList.update ''priority_order'' (Lte_dict (PInt p)) flt
                 | None \<Rightarrow> flt)
      in flt)"

section \<open>Documents, collaborators and effects\<close>

text \<open>
  A retrieved chunk is a LangChain \<open>Document\<close>: its text and its metadata dict. The
  source guards against a metadata attribute that is \<open>None\<close> (\<open>d.metadata or {}\<close>), so the
  field is optional here.
\<close>

record document =
  page_content :: string
  metadata :: "pyval dict option"

text \<open>
  What \<open>vectorstore.as_retriever\<close> is given: the search type and the \<open>search_kwargs\<close>
  dict, whose keys \<open>filter\<close> and \<open>score_threshold\<close> may be absent.
\<close>

datatype search_type = Similarity | Similarity_score_threshold

record search_kwargs =
  kw_k :: int
  kw_filter :: "metadata_filter option"
  kw_score_threshold :: "real option"

record retriever =
  search_type :: search_type
  search_kwargs :: search_kwargs

datatype error = Index_unavailable | Collaborator_failure | Attribute_error

text \<open>
  The collaborators are opaque. The vector index answers a configured retriever and a
  query with ranked documents; the two language-model chains map their prompt inputs to
  text. Each of them may raise. \<open>load_vector_index\<close> is the outcome of loading the
  persisted index; \<open>get_vectorstore\<close> memoises it with \<open>lru_cache\<close>, which changes no
  result.
\<close>

type_synonym vectorstore = "retriever \<Rightarrow> string \<Rightarrow> error + document list"

record env =
  load_vector_index :: "error + vectorstore"
  intent_llm :: "string \<Rightarrow> error + string"
  rag_llm :: "string \<Rightarrow> string \<Rightarrow> string \<Rightarrow> error + string"

text \<open>
  Every collaborator call is recorded: a computation yields the calls it made, in order,
  and either the exception that ended it or its value.
\<close>

datatype event =
    Search retriever string
  | Classify string
  | Generate string string string

type_synonym 'a io = "event list \<times> (error + 'a)"

definition io_return :: "'a \<Rightarrow> 'a io" where
  "io_return x = ([], Inr x)"

definition io_raise :: "error \<Rightarrow> 'a io" where
  "io_raise e = ([], Inl e)"

definition io_bind :: "'a io \<Rightarrow> ('a \<Rightarrow> 'b io) \<Rightarrow> 'b io" where
  "io_bind m f =
     (case m of
        (t, Inl e) \<Rightarrow> (t, Inl e)
      | (t, Inr x) \<Rightarrow> (case f x of (t', r) \<Rightarrow> (t @ t', r)))"

section \<open>retrieval/retrievers.py\<close>

definition RETRIEVER_TOP_K :: int where
  "RETRIEVER_TOP_K = 5"

definition get_vectorstore :: "env \<Rightarrow> error + vectorstore" where
  "get_vectorstore e = load_vector_index e"

text \<open>\<open>top_k or RETRIEVER_TOP_K\<close>: the left operand when it is truthy.\<close>

definition get_base_retriever :: "env \<Rightarrow> int option \<Rightarrow> error + vectorstore \<times> retriever" where
  "get_base_retriever e top_k =
     (case get_vectorstore e of
        Inl err \<Rightarrow> Inl err
      | Inr vectorstore \<Rightarrow>
          (let k = (case top_k of
                      Some n \<Rightarrow> if n \<noteq> 0 then n else RETRIEVER_TOP_K
                    | None \<Rightarrow> RETRIEVER_TOP_K)
           in Inr (vectorstore,
                   \<lparr>search_type = Similarity_score_threshold,
                    search_kwargs = \<lparr>kw_k = k, kw_filter = None,
                                      kw_score_threshold = Some 0.75\<rparr>\<rparr>)))"

definition get_filtered_retriever ::
  "env \<Rightarrow> metadata_filter option \<Rightarrow> int option \<Rightarrow> error + vectorstore \<times> retriever" where
  "get_filtered_retriever e metadata_filter top_k =
     (case get_vectorstore e of
        Inl err \<Rightarrow> Inl err
      | Inr vectorstore \<Rightarrow>
          (let k = (case top_k of
                      Some n \<Rightarrow> if n \<noteq> 0 then n else RETRIEVER_TOP_K
                    | None \<Rightarrow> RETRIEVER_TOP_K);
               search_kwargs = \<lparr>kw_k = k, kw_filter = None, kw_score_threshold = None\<rparr>;
               search_kwargs = (case metadata_filter of
                                  Some flt \<Rightarrow> if flt \<noteq> []
                                              then search_kwargs\<lparr>kw_filter := Some flt\<rparr>
                                              else search_kwargs
                                | None \<Rightarrow> search_kwargs)
           in Inr (vectorstore,
                   \<lparr>search_type = Similarity, search_kwargs = search_kwargs\<rparr>)))"

text \<open>\<open>retriever.invoke(query)\<close>: one search of the index with the retriever's settings.\<close>

definition invoke :: "vectorstore \<times> retriever \<Rightarrow> string \<Rightarrow> document list io" where
  "invoke r query = (case r of (vectorstore, cfg) \<Rightarrow> ([Search cfg query], vectorstore cfg query))"

section \<open>retrieval/routing.py\<close>

definition RUNBOOK_TOP_K :: int where
  "RUNBOOK_TOP_K = 3"

definition ALERT_TOP_K :: int where
  "ALERT_TOP_K = 3"

definition INCIDENT_TOP_K :: int where
  "INCIDENT_TOP_K = 3"

definition retrieve_with_filter ::
  "env \<Rightarrow> string \<Rightarrow> metadata_filter \<Rightarrow> int option \<Rightarrow> document list io" where
  "retrieve_with_filter e query metadata_filter top_k =
     (case get_filtered_retriever e (Some metadata_filter) top_k of
        Inl err \<Rightarrow> io_raise err
      | Inr r \<Rightarrow> invoke r query)"

definition route_runbook_first :: "env \<Rightarrow> string \<Rightarrow> string option \<Rightarrow> document list io" where
  "route_runbook_first e query service =
     io_bind (retrieve_with_filter e query
                (build_metadata_filter (Some ''runbook'') service None) (Some RUNBOOK_TOP_K))
       (\<lambda>docs. if docs \<noteq> [] then io_return docs
          else io_bind (retrieve_with_filter e query
                          (build_metadata_filter (Some ''alert'') service None)
                          (Some ALERT_TOP_K))
            (\<lambda>docs. if docs \<noteq> [] then io_return docs
               else io_bind (retrieve_with_filter e query
                               (build_metadata_filter (Some ''incident'') service None)
                               (Some INCIDENT_TOP_K))
                 (\<lambda>docs. io_return docs)))"

definition route_query ::
  "env \<Rightarrow> string \<Rightarrow> string \<Rightarrow> string option \<Rightarrow> document list io" where
  "route_query e query intent service =
     (if intent = ''runbook_lookup'' then route_runbook_first e query service
      else if intent = ''incident_analysis'' then
        retrieve_with_filter e query
          (build_metadata_filter (Some ''incident'') service None) None
      else if intent = ''log_analysis'' then
        retrieve_with_filter e query
          (build_metadata_filter (Some ''log'') service None) None
      else retrieve_with_filter e query (build_metadata_filter None service None) None)"

section \<open>chains/intent_chain.py\<close>

definition allowed :: "string list" where
  "allowed = [''runbook_lookup'', ''incident_analysis'', ''log_analysis'',
              ''alert_investigation'', ''ticket_investigation'', ''general_question'']"

definition classify_intent :: "env \<Rightarrow> string \<Rightarrow> string io" where
  "classify_intent e query =
     io_bind ([Classify query], intent_llm e query)
       (\<lambda>out. let intent = strip out;
                   intent = lower intent;
                   intent = (if intent \<notin> set allowed then ''runbook_lookup'' else intent)
               in io_return intent)"

section \<open>chains/rag\_chain.py\<close>

definition MAX_CONTEXT_DOCS :: nat where
  "MAX_CONTEXT_DOCS = 6"

text \<open>
  One pass of the loop of \<open>_extract_reference_ids\<close> over a document, \<open>r_doc\<close> being
  the set collected so far; \<open>continue\<close> leaves the set as it is.
\<close>

definition extract_step :: "document \<Rightarrow> string set \<Rightarrow> string set" where
  "extract_step d r_doc =
     (let md = (case metadata d of Some m \<Rightarrow> if m \<noteq> [] then m else [] | None \<Rightarrow> []);
          doc_src = (case map_of md ''source'' of Some v \<Rightarrow> v | None \<Rightarrow> PNone)
      in if \<not> truthy doc_src then r_doc
         else if lower (py_str doc_src) \<in> {''none'', ''null'', []} then r_doc
         else (let filename = basename (strip (py_str doc_src))
               in if filename \<noteq> [] \<and> lower filename \<notin> {''none'', ''null''}
                  then insert filename r_doc else r_doc))"

definition extract_reference_ids :: "document list \<Rightarrow> string list" where
  "extract_reference_ids docs = sorted_list_of_set (fold extract_step docs {})"

definition newline :: char where
  "newline = CHR 0x0A"

text \<open>
  The block of one document: the f-string of the source with its line breaks and
  indentation, stripped. A metadata attribute that is \<open>None\<close> has no \<open>get\<close>.
\<close>

definition context_block :: "document \<Rightarrow> error + string" where
  "context_block d =
     (case metadata d of
        None \<Rightarrow> Inl Attribute_error
      | Some md \<Rightarrow>
          (let source = (case map_of md ''source_type'' of
                           Some v \<Rightarrow> v | None \<Rightarrow> PStr ''unknown'');
               service = (case map_of md ''service'' of
                            Some v \<Rightarrow> v | None \<Rightarrow> PStr ''unknown'');
               block = newline # replicate 20 CHR '' '' @ ''Source: '' @ py_str source
                     @ newline # replicate 20 CHR '' '' @ ''Service: '' @ py_str service
                     @ newline # replicate 20 CHR '' '' @ ''Content:''
                     @ newline # replicate 20 CHR '' '' @ page_content d
                     @ newline # replicate 16 CHR '' ''
           in Inr (strip block)))"

fun context_parts :: "document list \<Rightarrow> error + string list" where
  "context_parts [] = Inr []"
| "context_parts (d # ds) =
     (case context_block d of
        Inl err \<Rightarrow> Inl err
      | Inr block \<Rightarrow>
          (case context_parts ds of
             Inl err \<Rightarrow> Inl err
           | Inr parts \<Rightarrow> Inr (block # parts)))"

fun join :: "string \<Rightarrow> string list \<Rightarrow> string" where
  "join sep [] = []"
| "join sep [x] = x"
| "join sep (x # y # ys) = x @ sep @ join sep (y # ys)"

definition build_context :: "document list \<Rightarrow> error + string" where
  "build_context docs =
     (if docs = [] then Inr ''No relevant documents found.''
      else (case context_parts (take MAX_CONTEXT_DOCS docs) of
              Inl err \<Rightarrow> Inl err
            | Inr parts \<Rightarrow>
                Inr (join ([newline, newline] @ ''---'' @ [newline, newline]) parts)))"

definition no_information :: string where
  "no_information =
     ''No relevant information found in runbooks, incidents, alerts, ''
     @ ''logs, or tickets. Please verify the issue or update the knowledge base.''"

definition generate_answer ::
  "env \<Rightarrow> string \<Rightarrow> string \<Rightarrow> string option \<Rightarrow> (string \<times> string list) io" where
  "generate_answer e query history service =
     io_bind (classify_intent e query)
       (\<lambda>intent. io_bind (route_query e query intent service)
          (\<lambda>docs. let reference_ids = extract_reference_ids docs
                   in if docs = [] then io_return (no_information, [])
                      else (case build_context docs of
                              Inl err \<Rightarrow> io_raise err
                            | Inr context \<Rightarrow>
                                io_bind ([Generate query context history],
                                         rag_llm e query context history)
                                  (\<lambda>content. io_return (content, reference_ids)))))"

section \<open>The searches the routing table names\<close>

text \<open>
  The specification's decision table speaks of a search "filtered to a source type (plus
  service)" and of a "broad search with only the service constraint". These are the
  retriever settings meant, written from the specification's words; the theorems below
  compare them with what the code passes to the index. The service constrains a search
  only when it is given, non-empty and not the literal \<open>unknown\<close>.
\<close>

definition spec_service_constraint :: "string option \<Rightarrow> metadata_filter" where
  "spec_service_constraint service =
     (case service of
        None \<Rightarrow> []
      | Some s \<Rightarrow> if s = [] \<or> s = ''unknown'' then [] else [(''service'', Plain (PStr s))])"

definition spec_filtered_search :: "string \<Rightarrow> string option \<Rightarrow> int \<Rightarrow> retriever" where
  "spec_filtered_search source_type service top_k =
     \<lparr>search_type = Similarity,
      search_kwargs =
        \<lparr>kw_k = top_k,
         kw_filter = Some ((''source_type'', Plain (PStr source_type))
                           # spec_service_constraint service),
         kw_score_threshold = None\<rparr>\<rparr>"

definition spec_broad_search :: "string option \<Rightarrow> int \<Rightarrow> retriever" where
  "spec_broad_search service top_k =
     \<lparr>search_type = Similarity,
      search_kwargs =
        \<lparr>kw_k = top_k,
         kw_filter = (if spec_service_constraint service = [] then None
                      else Some (spec_service_constraint service)),
         kw_score_threshold = None\<rparr>\<rparr>"

text \<open>The source value of a document, as the extractor reads it.\<close>

definition source_value :: "document \<Rightarrow> pyval" where
  "source_value d =
     (case metadata d of
        None \<Rightarrow> PNone
      | Some md \<Rightarrow> (case map_of md ''source'' of Some v \<Rightarrow> v | None \<Rightarrow> PNone))"

text \<open>
  The characters of the six labels are the lower-case letters a..z and the underscore. A
  character is a case variant of a label character when it is that character or, for a
  letter, its capital (32 code points below).
\<close>

definition label_char :: "char \<Rightarrow> bool" where
  "label_char a = (let n = (of_char a :: nat) in (97 \<le> n \<and> n \<le> 122) \<or> n = 95)"

definition case_variant :: "char \<Rightarrow> char \<Rightarrow> bool" where
  "case_variant c a =
     (c = a \<or> (97 \<le> (of_char a :: nat) \<and> (of_char a :: nat) \<le> 122
                \<and> (of_char c :: nat) + 32 = of_char a))"

section \<open>A small corpus for concrete runs\<close>

text \<open>
  An in-memory index over a fixed corpus: it returns, in corpus order, every document
  whose metadata meets the plain constraints of the filter, whatever the query and
  whatever \<open>k\<close>.
\<close>

definition example_matches :: "metadata_filter option \<Rightarrow> document \<Rightarrow> bool" where
  "example_matches flt d =
     (case flt of
        None \<Rightarrow> True
      | Some constraints \<Rightarrow>
          list_all
            (\<lambda>(key, c). case c of
                           Plain v \<Rightarrow> (case metadata d of
                                         Some md \<Rightarrow> map_of md key = Some v
                                       | None \<Rightarrow> False)
                         | Lte_dict v \<Rightarrow> True)
            constraints)"

definition example_store :: "document list \<Rightarrow> vectorstore" where
  "example_store corpus cfg query =
     Inr (filter (example_matches (kw_filter (search_kwargs cfg))) corpus)"

definition example_env :: "document list \<Rightarrow> string \<Rightarrow> env" where
  "example_env corpus label =
     \<lparr>load_vector_index = Inr (example_store corpus),
      intent_llm = (\<lambda>query. Inr label),
      rag_llm = (\<lambda>query context history. Inr ''Follow the runbook.'')\<rparr>"

definition disk_spike :: document where
  "disk_spike =
     \<lparr>page_content = ''Check disk usage with df -h.'',
      metadata = Some [(''source'', PStr ''runbooks/disk_spike.txt''),
                       (''source_type'', PStr ''runbook''),
                       (''service'', PStr ''trading-db'')]\<rparr>"

definition incident_doc :: document where
  "incident_doc =
     \<lparr>page_content = ''Disk filled up during the end-of-day batch.'',
      metadata = Some [(''source'', PStr ''incidents/INC-001.txt''),
                       (''source_type'', PStr ''incident''),
                       (''service'', PStr ''trading-db'')]\<rparr>"

definition numbered_doc :: "nat \<Rightarrow> document" where
  "numbered_doc n =
     \<lparr>page_content = ''Step '' @ dec_nat n,
      metadata = Some [(''source'', PStr (''runbooks/step'' @ dec_nat n @ ''.txt'')),
                       (''source_type'', PStr ''runbook'')]\<rparr>"

definition seven_docs :: "document list" where
  "seven_docs = map numbered_doc [1, 2, 3, 4, 5, 6, 7]"

definition source_doc :: "pyval \<Rightarrow> document" where
  "source_doc v = \<lparr>page_content = ''text'', metadata = Some [(''source'', v)]\<rparr>"

definition bare_doc :: document where
  "bare_doc = \<lparr>page_content = ''text'', metadata = None\<rparr>"

text \<open>
  The contexts expected for these documents, written out: one block per document, the
  blocks joined by a rule between blank lines. The context of the seven numbered documents
  holds the blocks of the first six.
\<close>

definition expected_block :: "string \<Rightarrow> string \<Rightarrow> string \<Rightarrow> string" where
  "expected_block source service content =
     ''Source: '' @ source
     @ newline # replicate 20 CHR '' '' @ ''Service: '' @ service
     @ newline # replicate 20 CHR '' '' @ ''Content:''
     @ newline # replicate 20 CHR '' '' @ content"

definition disk_context :: string where
  "disk_context = expected_block ''runbook'' ''trading-db'' ''Check disk usage with df -h.''"

definition seven_context :: string where
  "seven_context =
     join ([newline, newline] @ ''---'' @ [newline, newline])
       (map (\<lambda>n. expected_block ''runbook'' ''unknown'' (''Step '' @ dec_nat n))
          [1, 2, 3, 4, 5, 6])"

section \<open>The metadata filter builder\<close>

text \<open>
  C7. \<open>build_metadata_filter\<close> is a total function of its three optional inputs. The
  key \<open>source_type\<close> is absent when the input is absent or empty and holds the input
  otherwise; the key \<open>service\<close> is absent when the input is absent, empty or the literal
  \<open>unknown\<close>; \<open>max_priority\<close>, when present (zero included), is stored under
  \<open>priority_order\<close> as the range constraint \<open>{"$lte": max_priority}\<close>, never as a plain
  value. The filter has no other key, no key twice and no value that is \<open>None\<close>.
\<close>

theorem build_metadata_filter_keys:
  "(let flt = build_metadata_filter source_type service max_priority in
      map_of flt ''source_type'' =
        (case source_type of
           None \<Rightarrow> None
         | Some s \<Rightarrow> if s = [] then None else Some (Plain (PStr s)))
    \<and> map_of flt ''service'' =
        (case service of
           None \<Rightarrow> None
         | Some s \<Rightarrow> if s = [] \<or> s = ''unknown'' then None else Some (Plain (PStr s)))
    \<and> map_of flt ''priority_order'' =
        (case max_priority of
           None \<Rightarrow> None
         | Some p \<Rightarrow> Some (Lte_dict (PInt p)))
    \<and> set (map fst flt) \<subseteq> {''source_type'', ''service'', ''priority_order''}
    \<and> distinct (map fst flt)
    \<and> Plain PNone \<notin> set (map snd flt)
    \<and> Lte_dict PNone \<notin> set (map snd flt))"
  by (auto simp: build_metadata_filter_def split: option.splits)

section \<open>The intent classifier\<close>

lemma isspace_lower_char: "isspace (lower_char c) = isspace c"
  by (auto simp: isspace_def lower_char_def Let_def)

lemma strip_lower: "strip (lower s) = lower (strip s)"
  by (simp add: strip_def lower_def dropWhile_map rev_map comp_def isspace_lower_char)

lemma strip_padded:
  assumes "list_all isspace pre" and "list_all isspace post"
    and "core \<noteq> []" and "\<not> isspace (hd core)" and "\<not> isspace (last core)"
  shows "strip (pre @ core @ post) = core"
proof -
  have "dropWhile isspace (pre @ core @ post) = core @ post"
    using assms(1,3,4) by (cases core) (simp_all add: dropWhile_append list_all_iff)
  moreover have "dropWhile isspace (rev post @ rev core) = rev core"
    using assms(2,3,5)
    by (cases core rule: rev_cases) (simp_all add: dropWhile_append list_all_iff)
  ultimately show ?thesis
    by (simp add: strip_def)
qed

lemma case_variant_lower_char:
  assumes "case_variant c a" and "label_char a"
  shows "lower_char c = a \<and> \<not> isspace c"
proof -
  have eq: "char_of (of_char a :: nat) = a" by simp
  show ?thesis
    using assms eq
    by (auto simp: case_variant_def label_char_def lower_char_def isspace_def Let_def)
qed

lemma case_variant_lower:
  assumes "list_all2 case_variant core a" and "list_all label_char a"
  shows "lower core = a"
  using assms
  by (induction core a rule: list_all2_induct)
     (simp_all add: lower_def case_variant_lower_char)

lemma allowed_label_chars: "a \<in> set allowed \<Longrightarrow> list_all label_char a \<and> a \<noteq> []"
  unfolding allowed_def by (auto simp: label_char_def)


text \<open>
  C2. Whatever text the classification chain returns, \<open>classify_intent\<close> makes that one
  call and returns a label, never an exception: the trimmed and lower-cased output when
  that is one of the six allowed labels, and \<open>runbook_lookup\<close> otherwise. Trimming and
  lower-casing commute, so the order of the two is immaterial. The returned label is
  always one of the six, hence never an unrecognised raw output. The normalisation is
  effective: an allowed label written in any mix of upper and lower case, with any
  whitespace before and after it, is returned as that label.
\<close>

theorem classify_intent_guardrail:
  assumes "intent_llm e query = Inr out"
  shows "\<exists>label. classify_intent e query = ([Classify query], Inr label)
           \<and> label \<in> set allowed
           \<and> label = (if lower (strip out) \<in> set allowed then lower (strip out)
                      else ''runbook_lookup'')
           \<and> lower (strip out) = strip (lower out)
           \<and> (out \<notin> set allowed \<longrightarrow> label \<noteq> out)
           \<and> (\<forall>pre core post a.
                 out = pre @ core @ post \<and> list_all isspace pre \<and> list_all isspace post
                 \<and> a \<in> set allowed \<and> list_all2 case_variant core a
                 \<longrightarrow> label = a)"
proof -
  let ?n = "lower (strip out)"
  let ?label = "if ?n \<in> set allowed then ?n else ''runbook_lookup''"
  have run: "classify_intent e query = ([Classify query], Inr ?label)"
    using assms by (simp add: classify_intent_def io_bind_def io_return_def Let_def)
  have mem: "?label \<in> set allowed"
    by (simp add: allowed_def)
  have raw: "out \<notin> set allowed \<longrightarrow> ?label \<noteq> out"
    using mem by auto
  have norm: "?label = a"
    if "out = pre @ core @ post" and "list_all isspace pre" and "list_all isspace post"
      and "a \<in> set allowed" and "list_all2 case_variant core a"
    for pre core post a
  proof -
    have chars: "list_all label_char a" and "a \<noteq> []"
      using that(4) by (simp_all add: allowed_label_chars)
    have len: "length core = length a"
      using that(5) by (rule list_all2_lengthD)
    with \<open>a \<noteq> []\<close> have ne: "core \<noteq> []"
      by auto
    have "\<not> isspace c" if "c \<in> set core" for c
    proof -
      from that obtain i where "i < length core" and "c = core ! i"
        by (auto simp: in_set_conv_nth)
      with \<open>list_all2 case_variant core a\<close> have "case_variant c (a ! i)"
        by (simp add: list_all2_nthD)
      moreover have "label_char (a ! i)"
        using chars \<open>i < length core\<close> len by (simp add: list_all_length)
      ultimately show ?thesis
        by (simp add: case_variant_lower_char)
    qed
    with ne have "\<not> isspace (hd core)" and "\<not> isspace (last core)"
      by simp_all
    with that(2,3) ne have "strip (pre @ core @ post) = core"
      by (simp add: strip_padded)
    moreover have "lower core = a"
      using that(5) chars by (rule case_variant_lower)
    ultimately show ?thesis
      using that(1,4) by simp
  qed
  from run mem raw norm show ?thesis
    by (simp add: strip_lower)
qed

text \<open>
  A padded, mixed-case spelling of \<open>log_analysis\<close> is classified as \<open>log_analysis\<close>; a
  padded label outside the taxonomy falls back to \<open>runbook_lookup\<close>.
\<close>

theorem classify_intent_guardrail_witness:
  "intent_llm (example_env [] '' Log_Analysis '') ''why is the batch failing?''
     = Inr '' Log_Analysis ''
   \<and> classify_intent (example_env [] '' Log_Analysis '') ''why is the batch failing?''
     = ([Classify ''why is the batch failing?''], Inr ''log_analysis'')
   \<and> intent_llm (example_env [] '' Weather_Report '') ''what is the weather today?''
     = Inr '' Weather_Report ''
   \<and> classify_intent (example_env [] '' Weather_Report '') ''what is the weather today?''
     = ([Classify ''what is the weather today?''], Inr ''runbook_lookup'')"
proof -
  have llm: "intent_llm (example_env [] '' Log_Analysis '') ''why is the batch failing?''
               = Inr '' Log_Analysis ''"
    by (simp add: example_env_def)
  have padded: "'' Log_Analysis '' = '' '' @ ''Log_Analysis'' @ '' ''
      \<and> list_all isspace '' '' \<and> list_all isspace '' ''
      \<and> ''log_analysis'' \<in> set allowed
      \<and> list_all2 case_variant ''Log_Analysis'' ''log_analysis''"
    by (simp add: isspace_def allowed_def case_variant_def)
  from classify_intent_guardrail [OF llm] obtain label where
    run: "classify_intent (example_env [] '' Log_Analysis '') ''why is the batch failing?''
            = ([Classify ''why is the batch failing?''], Inr label)"
    and variants: "\<forall>pre core post a.
           '' Log_Analysis '' = pre @ core @ post \<and> list_all isspace pre
           \<and> list_all isspace post \<and> a \<in> set allowed \<and> list_all2 case_variant core a
           \<longrightarrow> label = a"
    by (elim exE conjE) (rule that)
  have "label = ''log_analysis''"
    using variants [rule_format, OF padded] .
  with run have one:
    "classify_intent (example_env [] '' Log_Analysis '') ''why is the batch failing?''
       = ([Classify ''why is the batch failing?''], Inr ''log_analysis'')"
    by simp
  have llm': "intent_llm (example_env [] '' Weather_Report '') ''what is the weather today?''
               = Inr '' Weather_Report ''"
    by (simp add: example_env_def)
  have norm: "lower (strip '' Weather_Report '') = ''weather_report''"
    by code_simp
  from classify_intent_guardrail [OF llm'] obtain label' where
    run': "classify_intent (example_env [] '' Weather_Report '') ''what is the weather today?''
            = ([Classify ''what is the weather today?''], Inr label')"
    and fallback: "label' = (if lower (strip '' Weather_Report '') \<in> set allowed
                             then lower (strip '' Weather_Report '') else ''runbook_lookup'')"
    by (elim exE conjE) (rule that)
  from fallback have "label' = ''runbook_lookup''"
    by (simp add: norm allowed_def)
  with run' have two:
    "classify_intent (example_env [] '' Weather_Report '') ''what is the weather today?''
       = ([Classify ''what is the weather today?''], Inr ''runbook_lookup'')"
    by simp
  from llm one llm' two show ?thesis
    by (intro conjI)
qed

section \<open>The router\<close>

text \<open>
  What \<open>_retrieve_with_filter\<close> asks of a loaded index, for the filters the router
  builds: the filter of a source type and a service, and the filter of a service alone.
\<close>

lemma build_filter_source_type:
  "st \<noteq> [] \<Longrightarrow>
   build_metadata_filter (Some st) service None
     = (''source_type'', Plain (PStr st)) # spec_service_constraint service"
  by (simp add: build_metadata_filter_def spec_service_constraint_def split: option.splits)

lemma build_filter_service_only:
  "build_metadata_filter None service None = spec_service_constraint service"
  by (simp add: build_metadata_filter_def spec_service_constraint_def split: option.splits)

lemma retrieve_filtered_search:
  assumes "load_vector_index e = Inr vs" "st \<noteq> []" "k \<noteq> 0"
  shows "retrieve_with_filter e query (build_metadata_filter (Some st) service None) (Some k)
           = ([Search (spec_filtered_search st service k) query],
              vs (spec_filtered_search st service k) query)"
  using assms
  by (simp add: retrieve_with_filter_def get_filtered_retriever_def get_vectorstore_def
      invoke_def build_filter_source_type spec_filtered_search_def)

lemma retrieve_filtered_search_default:
  assumes "load_vector_index e = Inr vs" "st \<noteq> []"
  shows "retrieve_with_filter e query (build_metadata_filter (Some st) service None) None
           = ([Search (spec_filtered_search st service 5) query],
              vs (spec_filtered_search st service 5) query)"
  using assms
  by (simp add: retrieve_with_filter_def get_filtered_retriever_def get_vectorstore_def
      invoke_def build_filter_source_type spec_filtered_search_def RETRIEVER_TOP_K_def)

lemma retrieve_broad_search:
  assumes "load_vector_index e = Inr vs"
  shows "retrieve_with_filter e query (build_metadata_filter None service None) None
           = ([Search (spec_broad_search service 5) query],
              vs (spec_broad_search service 5) query)"
  using assms
  by (simp add: retrieve_with_filter_def get_filtered_retriever_def get_vectorstore_def
      invoke_def build_filter_service_only spec_broad_search_def RETRIEVER_TOP_K_def)

text \<open>
  C1. With the index loaded, \<open>route_query\<close> on the intent \<open>runbook_lookup\<close> runs the
  cascade. It searches with the filter \<open>source_type = runbook\<close> (plus the service) at
  \<open>k = 3\<close> and returns a non-empty result at once, having made that one search only;
  otherwise it searches the alerts in the same way and returns a non-empty result after
  two searches; otherwise it returns whatever the incident search yields, empty or not.
  The calls recorded are these searches and no other: tickets and logs are never
  searched. An exception of the index ends the cascade where it occurs.
\<close>

theorem route_query_runbook_lookup:
  assumes "load_vector_index e = Inr vs"
  shows "route_query e query ''runbook_lookup'' service =
     (let runbook = spec_filtered_search ''runbook'' service 3;
          alert = spec_filtered_search ''alert'' service 3;
          incident = spec_filtered_search ''incident'' service 3
      in case vs runbook query of
           Inl err \<Rightarrow> ([Search runbook query], Inl err)
         | Inr docs \<Rightarrow>
             if docs \<noteq> [] then ([Search runbook query], Inr docs)
             else (case vs alert query of
                     Inl err \<Rightarrow> ([Search runbook query, Search alert query], Inl err)
                   | Inr docs \<Rightarrow>
                       if docs \<noteq> [] then ([Search runbook query, Search alert query], Inr docs)
                       else ([Search runbook query, Search alert query, Search incident query],
                             vs incident query)))"
proof -
  have step: "\<And>st. st \<noteq> [] \<Longrightarrow>
      retrieve_with_filter e query (build_metadata_filter (Some st) service None) (Some 3)
        = ([Search (spec_filtered_search st service 3) query],
           vs (spec_filtered_search st service 3) query)"
    using assms by (simp add: retrieve_filtered_search)
  show ?thesis
    by (simp add: route_query_def route_runbook_first_def RUNBOOK_TOP_K_def ALERT_TOP_K_def
        INCIDENT_TOP_K_def step io_bind_def io_return_def Let_def
        split: sum.splits prod.splits)
qed

theorem route_query_runbook_lookup_witness:
  "load_vector_index (example_env [incident_doc] ''runbook_lookup'')
     = Inr (example_store [incident_doc])
   \<and> route_query (example_env [incident_doc] ''runbook_lookup'')
        ''What is the first step if disk usage spikes?'' ''runbook_lookup'' (Some ''trading-db'')
     = ([Search (spec_filtered_search ''runbook'' (Some ''trading-db'') 3)
           ''What is the first step if disk usage spikes?'',
         Search (spec_filtered_search ''alert'' (Some ''trading-db'') 3)
           ''What is the first step if disk usage spikes?'',
         Search (spec_filtered_search ''incident'' (Some ''trading-db'') 3)
           ''What is the first step if disk usage spikes?''],
        Inr [incident_doc])"
proof -
  have h: "load_vector_index (example_env [incident_doc] ''runbook_lookup'')
             = Inr (example_store [incident_doc])"
    by (simp add: example_env_def)
  show ?thesis
    using route_query_runbook_lookup [OF h,
        of "''What is the first step if disk usage spikes?''" "Some ''trading-db''"] h
    by (simp add: example_store_def example_matches_def spec_filtered_search_def
        spec_service_constraint_def incident_doc_def)
qed

text \<open>
  C3. With the index loaded, \<open>route_query\<close> takes the first branch whose intent matches:
  the cascade for \<open>runbook_lookup\<close>; one search filtered to \<open>source_type = incident\<close> plus
  the service for \<open>incident_analysis\<close>; one search filtered to \<open>source_type = log\<close> plus
  the service for \<open>log_analysis\<close>; and for every other intent one broad search whose only
  constraint is the service, which holds no \<open>source_type\<close> key. Outside the cascade the
  result count is the default 5.
\<close>

theorem route_query_branches:
  assumes "load_vector_index e = Inr vs"
  shows "route_query e query intent service =
     (if intent = ''runbook_lookup'' then route_runbook_first e query service
      else (let cfg = (if intent = ''incident_analysis''
                         then spec_filtered_search ''incident'' service 5
                       else if intent = ''log_analysis''
                         then spec_filtered_search ''log'' service 5
                       else spec_broad_search service 5)
            in ([Search cfg query], vs cfg query)))
   \<and> map_of (spec_service_constraint service) ''source_type'' = None"
proof
  show "route_query e query intent service =
     (if intent = ''runbook_lookup'' then route_runbook_first e query service
      else (let cfg = (if intent = ''incident_analysis''
                         then spec_filtered_search ''incident'' service 5
                       else if intent = ''log_analysis''
                         then spec_filtered_search ''log'' service 5
                       else spec_broad_search service 5)
            in ([Search cfg query], vs cfg query)))"
    using assms
    by (simp add: route_query_def retrieve_filtered_search_default retrieve_broad_search
        Let_def)
  show "map_of (spec_service_constraint service) ''source_type'' = None"
    by (simp add: spec_service_constraint_def split: option.splits)
qed

theorem route_query_branches_witness:
  "load_vector_index (example_env [disk_spike, incident_doc] ''ticket_investigation'')
     = Inr (example_store [disk_spike, incident_doc])
   \<and> route_query (example_env [disk_spike, incident_doc] ''ticket_investigation'')
        ''SR-Trade-003 users reporting payment timeouts'' ''ticket_investigation''
        (Some ''trading-db'')
     = ([Search \<lparr>search_type = Similarity,
                  search_kwargs = \<lparr>kw_k = 5,
                    kw_filter = Some [(''service'', Plain (PStr ''trading-db''))],
                    kw_score_threshold = None\<rparr>\<rparr>
           ''SR-Trade-003 users reporting payment timeouts''],
        Inr [disk_spike, incident_doc])
   \<and> route_query (example_env [disk_spike, incident_doc] ''ticket_investigation'')
        ''why did the disk fill up'' ''incident_analysis'' (Some ''trading-db'')
     = ([Search (spec_filtered_search ''incident'' (Some ''trading-db'') 5)
           ''why did the disk fill up''],
        Inr [incident_doc])"
proof -
  have h: "load_vector_index (example_env [disk_spike, incident_doc] ''ticket_investigation'')
             = Inr (example_store [disk_spike, incident_doc])"
    by (simp add: example_env_def)
  show ?thesis
    using route_query_branches [OF h,
        of "''SR-Trade-003 users reporting payment timeouts''" "''ticket_investigation''"
           "Some ''trading-db''"]
      route_query_branches [OF h,
        of "''why did the disk fill up''" "''incident_analysis''" "Some ''trading-db''"] h
    by (simp add: example_store_def example_matches_def spec_filtered_search_def
        spec_broad_search_def spec_service_constraint_def incident_doc_def disk_spike_def)
qed

section \<open>The retriever adapter\<close>

text \<open>
  With the index loaded, both retriever constructors set the result count to the default
  when no \<open>top_k\<close> is given, and to the supplied \<open>top_k\<close> when that is not zero.
\<close>

lemma retriever_top_k:
  assumes "load_vector_index e = Inr vs" and "top_k \<noteq> Some 0"
  shows "\<exists>r b. get_filtered_retriever e metadata_filter top_k = Inr (vs, r)
           \<and> get_base_retriever e top_k = Inr (vs, b)
           \<and> kw_k (search_kwargs r) = (case top_k of None \<Rightarrow> 5 | Some n \<Rightarrow> n)
           \<and> kw_k (search_kwargs b) = (case top_k of None \<Rightarrow> 5 | Some n \<Rightarrow> n)"
  using assms
  by (simp add: get_filtered_retriever_def get_base_retriever_def get_vectorstore_def
      RETRIEVER_TOP_K_def Let_def split: option.splits)

text \<open>
  C9. The claim gives the supplied \<open>top_k\<close> precedence over the default for every
  supplied value. At \<open>top_k = 0\<close> the code does otherwise: \<open>top_k or RETRIEVER_TOP_K\<close>
  takes the falsy 0 for an absent argument, and both constructors ask for 5 documents
  instead of the 0 supplied.
\<close>

theorem retriever_top_k_zero:
  "get_filtered_retriever (example_env [] ''runbook_lookup'') None (Some 0)
       = Inr (example_store [],
              \<lparr>search_type = Similarity,
               search_kwargs = \<lparr>kw_k = 5, kw_filter = None, kw_score_threshold = None\<rparr>\<rparr>)
   \<and> get_base_retriever (example_env [] ''runbook_lookup'') (Some 0)
       = Inr (example_store [],
              \<lparr>search_type = Similarity_score_threshold,
               search_kwargs = \<lparr>kw_k = 5, kw_filter = None,
                                 kw_score_threshold = Some 0.75\<rparr>\<rparr>)"
  by (simp add: get_filtered_retriever_def get_base_retriever_def get_vectorstore_def
      example_env_def RETRIEVER_TOP_K_def)

section \<open>The reference-ID extractor\<close>

text \<open>
  One pass of the loop, in terms of the source value it reads: the two guards of the
  source and the guard on the file name. A truthy value never prints as the empty
  string, so the empty string in the second guard excludes nothing further.
\<close>

lemma extract_step_source_value:
  "extract_step d r_doc =
     (let v = source_value d; filename = basename (strip (py_str v))
      in if truthy v \<and> lower (py_str v) \<notin> {''none'', ''null''}
            \<and> filename \<noteq> [] \<and> lower filename \<notin> {''none'', ''null''}
         then insert filename r_doc else r_doc)"
proof -
  have src: "(case map_of (case metadata d of None \<Rightarrow> [] | Some m \<Rightarrow> if m \<noteq> [] then m else [])
                ''source'' of None \<Rightarrow> PNone | Some v \<Rightarrow> v) = source_value d"
    by (simp add: source_value_def split: option.splits)
  have nonempty: "truthy v \<Longrightarrow> py_str v = [] \<Longrightarrow> False" for v
    by (cases v) (auto simp: dec_nat.simps [of "nat _"] split: if_splits)
  show ?thesis
    unfolding extract_step_def src Let_def
    using nonempty by (auto simp: lower_def)
qed

lemma extract_step_union: "extract_step d r_doc = r_doc \<union> extract_step d {}"
  by (simp add: extract_step_source_value Let_def)

lemma fold_extract_step:
  "fold extract_step docs r_doc = r_doc \<union> (\<Union>d \<in> set docs. extract_step d {})"
proof (induction docs arbitrary: r_doc)
  case Nil
  show ?case by simp
next
  case (Cons d docs)
  have "fold extract_step (d # docs) r_doc = fold extract_step docs (extract_step d r_doc)"
    by simp
  also have "\<dots> = extract_step d r_doc \<union> (\<Union>x \<in> set docs. extract_step x {})"
    by (rule Cons.IH)
  also have "extract_step d r_doc = r_doc \<union> extract_step d {}"
    by (rule extract_step_union)
  finally show ?case by auto
qed

lemma finite_extract_step: "finite (extract_step d {})"
  by (simp add: extract_step_source_value Let_def)

lemma finite_fold_extract_step: "finite (fold extract_step docs {})"
  by (simp add: fold_extract_step finite_extract_step)

lemma set_extract_reference_ids:
  "set (extract_reference_ids docs) = (\<Union>d \<in> set docs. extract_step d {})"
  using finite_fold_extract_step [of docs]
  by (simp add: extract_reference_ids_def fold_extract_step)

lemma extract_reference_ids_cong:
  assumes "(\<Union>d \<in> set docs'. extract_step d {}) = (\<Union>d \<in> set docs. extract_step d {})"
  shows "extract_reference_ids docs' = extract_reference_ids docs"
  using assms by (simp add: extract_reference_ids_def fold_extract_step)

lemma extract_step_metadata:
  "extract_step d {} = extract_step \<lparr>page_content = [], metadata = metadata d\<rparr> {}"
  by (simp add: extract_step_source_value source_value_def)

lemma extract_reference_ids_mono:
  "set xs \<subseteq> set ys \<Longrightarrow> set (extract_reference_ids xs) \<subseteq> set (extract_reference_ids ys)"
  by (auto simp: set_extract_reference_ids)

lemma extract_reference_ids_Nil: "extract_reference_ids [] = []"
  by (simp add: extract_reference_ids_def)

text \<open>
  C5, as amended. \<open>_extract_reference_ids\<close> is total: it returns a list for every batch,
  also for documents without metadata or without a \<open>source\<close>. A document whose source value
  is missing, falsy (empty included) or, ignoring case, \<open>none\<close> or \<open>null\<close> contributes
  nothing: dropping such documents from the batch leaves the result unchanged. Every
  other source value is printed, trimmed and cut to its final path component, and that
  file name is in the result unless it is empty or, ignoring case, \<open>none\<close> or \<open>null\<close>. The
  result holds nothing else.
\<close>

theorem extract_reference_ids_contents:
  "set (extract_reference_ids docs) =
     {basename (strip (py_str v)) | v.
        v \<in> source_value ` set docs
        \<and> truthy v \<and> lower (py_str v) \<notin> {''none'', ''null''}
        \<and> basename (strip (py_str v)) \<noteq> []
        \<and> lower (basename (strip (py_str v))) \<notin> {''none'', ''null''}}
   \<and> extract_reference_ids
        (filter (\<lambda>d. truthy (source_value d)
                      \<and> lower (py_str (source_value d)) \<notin> {''none'', ''null''}) docs)
      = extract_reference_ids docs"
proof
  show "set (extract_reference_ids docs) =
     {basename (strip (py_str v)) | v.
        v \<in> source_value ` set docs
        \<and> truthy v \<and> lower (py_str v) \<notin> {''none'', ''null''}
        \<and> basename (strip (py_str v)) \<noteq> []
        \<and> lower (basename (strip (py_str v))) \<notin> {''none'', ''null''}}"
    unfolding set_extract_reference_ids
    by (auto simp: extract_step_source_value Let_def split: if_splits)
  show "extract_reference_ids
        (filter (\<lambda>d. truthy (source_value d)
                      \<and> lower (py_str (source_value d)) \<notin> {''none'', ''null''}) docs)
      = extract_reference_ids docs"
    by (rule extract_reference_ids_cong)
       (auto simp: extract_step_source_value Let_def split: if_splits)
qed

theorem extract_reference_ids_contents_witness:
  "extract_reference_ids
     [disk_spike, bare_doc, source_doc PNone, source_doc (PStr []), source_doc (PStr ''NoNe''),
      source_doc (PStr ''NULL''), source_doc (PInt 0), source_doc (PStr ''  runbooks/mq.txt '')]
     = [''disk_spike.txt'', ''mq.txt'']
   \<and> extract_reference_ids
        (filter (\<lambda>d. truthy (source_value d)
                      \<and> lower (py_str (source_value d)) \<notin> {''none'', ''null''})
           [disk_spike, bare_doc, source_doc PNone, source_doc (PStr []),
            source_doc (PStr ''NoNe''), source_doc (PStr ''NULL''), source_doc (PInt 0),
            source_doc (PStr ''  runbooks/mq.txt '')])
      = extract_reference_ids
          [disk_spike, bare_doc, source_doc PNone, source_doc (PStr []),
           source_doc (PStr ''NoNe''), source_doc (PStr ''NULL''), source_doc (PInt 0),
           source_doc (PStr ''  runbooks/mq.txt '')]"
proof
  show "extract_reference_ids
     [disk_spike, bare_doc, source_doc PNone, source_doc (PStr []), source_doc (PStr ''NoNe''),
      source_doc (PStr ''NULL''), source_doc (PInt 0), source_doc (PStr ''  runbooks/mq.txt '')]
     = [''disk_spike.txt'', ''mq.txt'']"
    by code_simp
  show "extract_reference_ids
        (filter (\<lambda>d. truthy (source_value d)
                      \<and> lower (py_str (source_value d)) \<notin> {''none'', ''null''})
           [disk_spike, bare_doc, source_doc PNone, source_doc (PStr []),
            source_doc (PStr ''NoNe''), source_doc (PStr ''NULL''), source_doc (PInt 0),
            source_doc (PStr ''  runbooks/mq.txt '')])
      = extract_reference_ids
          [disk_spike, bare_doc, source_doc PNone, source_doc (PStr []),
           source_doc (PStr ''NoNe''), source_doc (PStr ''NULL''), source_doc (PInt 0),
           source_doc (PStr ''  runbooks/mq.txt '')]"
    using extract_reference_ids_contents by (rule conjunct2)
qed

text \<open>
  The claim as stated fails on two source values that it counts as remaining. The value
  \<open>archive/null\<close> is neither missing, empty, \<open>none\<close> nor \<open>null\<close>, yet its final path component
  \<open>null\<close> is not added. The value \<open>runbooks/disk.txt\<close> followed by a space is added as
  \<open>disk.txt\<close>, which is the final path component of the trimmed value, not of the value.
\<close>

theorem basename_guard_counterexample:
  "extract_reference_ids
     [source_doc (PStr ''archive/null''), source_doc (PStr ''runbooks/disk.txt '')]
     = [''disk.txt'']
   \<and> lower ''archive/null'' \<notin> {''none'', ''null'', []}
   \<and> basename ''archive/null'' = ''null''
   \<and> basename ''runbooks/disk.txt '' = ''disk.txt ''"
  by code_simp

section \<open>Answer assembly\<close>

text \<open>The calls each stage makes, and where the returned reference IDs come from.\<close>

lemma retrieve_events:
  "ev \<in> set (fst (retrieve_with_filter e query flt top_k)) \<Longrightarrow>
   \<exists>r. ev = Search r query \<and> search_type r = Similarity
        \<and> kw_score_threshold (search_kwargs r) = None"
  by (auto simp: retrieve_with_filter_def get_filtered_retriever_def invoke_def io_raise_def
      Let_def split: sum.splits option.splits if_splits)

lemma io_bind_events:
  "ev \<in> set (fst (io_bind m f)) \<Longrightarrow>
   ev \<in> set (fst m) \<or> (\<exists>x. snd m = Inr x \<and> ev \<in> set (fst (f x)))"
  by (auto simp: io_bind_def split: prod.splits sum.splits)

lemma route_runbook_first_events:
  assumes "ev \<in> set (fst (route_runbook_first e query service))"
  shows "\<exists>r. ev = Search r query \<and> search_type r = Similarity
        \<and> kw_score_threshold (search_kwargs r) = None"
  using assms unfolding route_runbook_first_def
  by (auto dest!: io_bind_events retrieve_events simp: io_return_def split: if_splits)

lemma route_query_events:
  assumes "ev \<in> set (fst (route_query e query intent service))"
  shows "\<exists>r. ev = Search r query \<and> search_type r = Similarity
        \<and> kw_score_threshold (search_kwargs r) = None"
  using assms route_runbook_first_events retrieve_events
  unfolding route_query_def
  by (auto split: if_splits)

lemma classify_intent_events:
  "ev \<in> set (fst (classify_intent e query)) \<Longrightarrow> ev = Classify query"
  by (auto simp: classify_intent_def io_bind_def io_return_def Let_def split: sum.splits)

lemma generate_answer_reference_source:
  assumes "generate_answer e query history service = (t, Inr (content, refs))"
  shows "\<exists>t1 intent t2 docs.
           classify_intent e query = (t1, Inr intent)
         \<and> route_query e query intent service = (t2, Inr docs)
         \<and> refs = extract_reference_ids docs"
  using assms
  by (auto simp: generate_answer_def io_bind_def io_return_def io_raise_def Let_def
      extract_reference_ids_Nil split: prod.splits sum.splits if_splits)

lemma classify_intent_rag_llm:
  "classify_intent (e\<lparr>rag_llm := g\<rparr>) query = classify_intent e query"
  by (simp add: classify_intent_def)

lemma route_query_rag_llm:
  "route_query (e\<lparr>rag_llm := g\<rparr>) query intent service = route_query e query intent service"
proof -
  have same: "retrieve_with_filter (e\<lparr>rag_llm := g\<rparr>) = retrieve_with_filter e"
    by (intro ext)
       (simp add: retrieve_with_filter_def get_filtered_retriever_def get_vectorstore_def)
  show ?thesis
    unfolding route_query_def route_runbook_first_def same by (rule refl)
qed

lemma generate_answer_references_rag_llm:
  assumes "generate_answer e query history service = (t, Inr (content, refs))"
    and "generate_answer (e\<lparr>rag_llm := g\<rparr>) query history service = (t', Inr (content', refs'))"
  shows "refs' = refs"
proof -
  obtain t1 intent t2 docs where
    a: "classify_intent e query = (t1, Inr intent)"
       "route_query e query intent service = (t2, Inr docs)"
       "refs = extract_reference_ids docs"
    using generate_answer_reference_source [OF assms(1)] by blast
  obtain t1' intent' t2' docs' where
    b: "classify_intent (e\<lparr>rag_llm := g\<rparr>) query = (t1', Inr intent')"
       "route_query (e\<lparr>rag_llm := g\<rparr>) query intent' service = (t2', Inr docs')"
       "refs' = extract_reference_ids docs'"
    using generate_answer_reference_source [OF assms(2)] by blast
  from a(1) b(1) have "intent' = intent"
    by (simp add: classify_intent_rag_llm)
  with a(2) b(2) have "docs' = docs"
    by (simp add: route_query_rag_llm)
  with a(3) b(3) show ?thesis by simp
qed

lemma build_context_take:
  "build_context (take MAX_CONTEXT_DOCS docs) = build_context docs"
  by (cases docs) (simp_all add: build_context_def MAX_CONTEXT_DOCS_def)

text \<open>Concrete runs used below.\<close>

lemma example_classify:
  "classify_intent (example_env corpus ''runbook_lookup'') query
     = ([Classify query], Inr ''runbook_lookup'')"
  by (simp add: classify_intent_def example_env_def io_bind_def io_return_def allowed_def
      strip_def lower_def lower_char_def isspace_def)

lemma example_load:
  "load_vector_index (example_env corpus label) = Inr (example_store corpus)"
  by (simp add: example_env_def)

text \<open>
  C6. The result of \<open>_extract_reference_ids\<close> is the same for every permutation of the
  batch and does not change when the batch is repeated; it is sorted (by code point) and
  free of duplicates. It is a function of the documents' metadata alone: batches with the
  same metadata give the same list, whatever their text. No language-model output enters
  it: the reference IDs \<open>generate_answer\<close> returns stay the same when the generation chain
  is replaced by any other.
\<close>

theorem extract_reference_ids_order_independent:
  assumes "mset docs' = mset docs"
  shows "extract_reference_ids docs' = extract_reference_ids docs
       \<and> extract_reference_ids (docs @ docs) = extract_reference_ids docs
       \<and> sorted (extract_reference_ids docs)
       \<and> distinct (extract_reference_ids docs)
       \<and> (\<forall>ds. map metadata ds = map metadata docs
               \<longrightarrow> extract_reference_ids ds = extract_reference_ids docs)
       \<and> (\<forall>g t content refs t' content' refs'.
             generate_answer e query history service = (t, Inr (content, refs))
             \<longrightarrow> generate_answer (e\<lparr>rag_llm := g\<rparr>) query history service
                   = (t', Inr (content', refs'))
             \<longrightarrow> refs' = refs)"
proof (intro conjI allI impI)
  have same_set: "set docs' = set docs"
    using assms by (rule mset_eq_setD)
  show "extract_reference_ids docs' = extract_reference_ids docs"
    by (rule extract_reference_ids_cong) (simp only: same_set)
  show "extract_reference_ids (docs @ docs) = extract_reference_ids docs"
    by (rule extract_reference_ids_cong) simp
  show "sorted (extract_reference_ids docs)"
    by (simp add: extract_reference_ids_def)
  show "distinct (extract_reference_ids docs)"
    by (simp add: extract_reference_ids_def)
next
  fix ds :: "document list"
  assume same: "map metadata ds = map metadata docs"
  have image: "(\<Union>d \<in> set xs. extract_step d {})
        = (\<Union>m \<in> set (map metadata xs). extract_step \<lparr>page_content = [], metadata = m\<rparr> {})"
    for xs
    by (simp add: extract_step_metadata [symmetric])
  show "extract_reference_ids ds = extract_reference_ids docs"
    by (rule extract_reference_ids_cong) (simp only: image same)
next
  fix g t content refs t' content' refs'
  assume "generate_answer e query history service = (t, Inr (content, refs))"
    and "generate_answer (e\<lparr>rag_llm := g\<rparr>) query history service = (t', Inr (content', refs'))"
  then show "refs' = refs"
    by (rule generate_answer_references_rag_llm)
qed

theorem extract_reference_ids_order_independent_witness:
  "mset [incident_doc, disk_spike, incident_doc] = mset [disk_spike, incident_doc, incident_doc]
   \<and> extract_reference_ids [incident_doc, disk_spike, incident_doc]
       = [''INC-001.txt'', ''disk_spike.txt'']
   \<and> extract_reference_ids [disk_spike, incident_doc, incident_doc]
       = [''INC-001.txt'', ''disk_spike.txt'']
   \<and> snd (generate_answer (example_env [disk_spike, incident_doc] ''runbook_lookup'')
            ''disk usage spikes'' [] None)
       = Inr (''Follow the runbook.'', [''disk_spike.txt''])
   \<and> snd (generate_answer
            ((example_env [disk_spike, incident_doc] ''runbook_lookup'')
               \<lparr>rag_llm := (\<lambda>query context history. Inr ''See INC-001.txt and restart.'')\<rparr>)
            ''disk usage spikes'' [] None)
       = Inr (''See INC-001.txt and restart.'', [''disk_spike.txt''])"
proof -
  have h: "mset [incident_doc, disk_spike, incident_doc]
             = mset [disk_spike, incident_doc, incident_doc]"
    by simp
  have v: "extract_reference_ids [disk_spike, incident_doc, incident_doc]
             = [''INC-001.txt'', ''disk_spike.txt'']"
    by code_simp
  have g1: "snd (generate_answer (example_env [disk_spike, incident_doc] ''runbook_lookup'')
            ''disk usage spikes'' [] None)
       = Inr (''Follow the runbook.'', [''disk_spike.txt''])"
    by code_simp
  have g2: "snd (generate_answer
            ((example_env [disk_spike, incident_doc] ''runbook_lookup'')
               \<lparr>rag_llm := (\<lambda>query context history. Inr ''See INC-001.txt and restart.'')\<rparr>)
            ''disk usage spikes'' [] None)
       = Inr (''See INC-001.txt and restart.'', [''disk_spike.txt''])"
    by code_simp
  have "extract_reference_ids [incident_doc, disk_spike, incident_doc]
          = extract_reference_ids [disk_spike, incident_doc, incident_doc]"
    using extract_reference_ids_order_independent [OF h] by (rule conjunct1)
  then have w: "extract_reference_ids [incident_doc, disk_spike, incident_doc]
                    = [''INC-001.txt'', ''disk_spike.txt'']"
    by (simp only: v)
  from h w v g1 g2 show ?thesis
    by (intro conjI)
qed

text \<open>
  C4. When the router returns no document, \<open>generate_answer\<close> returns the fixed sentinel
  text with an empty reference list. The calls it has made by then are those of the
  classifier and of the router; none of them is a call of the generation chain.
\<close>

theorem generate_answer_empty_retrieval:
  assumes "classify_intent e query = (t1, Inr intent)"
    and "route_query e query intent service = (t2, Inr [])"
  shows "generate_answer e query history service = (t1 @ t2, Inr (no_information, []))
       \<and> (\<forall>ev \<in> set (t1 @ t2). \<forall>q c h. ev \<noteq> Generate q c h)"
proof
  show "generate_answer e query history service = (t1 @ t2, Inr (no_information, []))"
    using assms by (simp add: generate_answer_def io_bind_def io_return_def)
  show "\<forall>ev \<in> set (t1 @ t2). \<forall>q c h. ev \<noteq> Generate q c h"
  proof
    fix ev
    assume "ev \<in> set (t1 @ t2)"
    then consider "ev \<in> set (fst (classify_intent e query))"
      | "ev \<in> set (fst (route_query e query intent service))"
      using assms by auto
    then show "\<forall>q c h. ev \<noteq> Generate q c h"
    proof cases
      case 1
      then show ?thesis by (auto dest: classify_intent_events)
    next
      case 2
      then show ?thesis by (auto dest: route_query_events)
    qed
  qed
qed

theorem generate_answer_empty_retrieval_witness:
  "classify_intent (example_env [] ''runbook_lookup'') ''disk usage spikes''
     = ([Classify ''disk usage spikes''], Inr ''runbook_lookup'')
   \<and> route_query (example_env [] ''runbook_lookup'') ''disk usage spikes'' ''runbook_lookup'' None
     = ([Search (spec_filtered_search ''runbook'' None 3) ''disk usage spikes'',
         Search (spec_filtered_search ''alert'' None 3) ''disk usage spikes'',
         Search (spec_filtered_search ''incident'' None 3) ''disk usage spikes''], Inr [])
   \<and> generate_answer (example_env [] ''runbook_lookup'') ''disk usage spikes'' [] None
     = ([Classify ''disk usage spikes'',
         Search (spec_filtered_search ''runbook'' None 3) ''disk usage spikes'',
         Search (spec_filtered_search ''alert'' None 3) ''disk usage spikes'',
         Search (spec_filtered_search ''incident'' None 3) ''disk usage spikes''],
        Inr (no_information, []))"
proof -
  have c: "classify_intent (example_env [] ''runbook_lookup'') ''disk usage spikes''
     = ([Classify ''disk usage spikes''], Inr ''runbook_lookup'')"
    by (rule example_classify)
  have r: "route_query (example_env [] ''runbook_lookup'') ''disk usage spikes''
             ''runbook_lookup'' None
     = ([Search (spec_filtered_search ''runbook'' None 3) ''disk usage spikes'',
         Search (spec_filtered_search ''alert'' None 3) ''disk usage spikes'',
         Search (spec_filtered_search ''incident'' None 3) ''disk usage spikes''], Inr [])"
    by (simp add: route_query_def route_runbook_first_def RUNBOOK_TOP_K_def ALERT_TOP_K_def
        INCIDENT_TOP_K_def retrieve_filtered_search [OF example_load] io_bind_def
        io_return_def example_store_def)
  show ?thesis
    using generate_answer_empty_retrieval [OF c r, of "[]"] c r by simp
qed

text \<open>
  C10. When the router returns documents and generation succeeds, \<open>generate_answer\<close>
  returns the reference IDs of the whole routed list, while the context given to the
  generation chain is the one built from the first six documents alone. Every routed
  document contributes its file name to the IDs returned, wherever it stands in the list;
  the IDs of the first six are among them, and a list of more than six documents can have
  IDs beyond those: the seven numbered documents do.
\<close>

theorem generate_answer_references_untruncated:
  assumes "classify_intent e query = (t1, Inr intent)"
    and "route_query e query intent service = (t2, Inr docs)"
    and "docs \<noteq> []"
    and "build_context docs = Inr context"
    and "rag_llm e query context history = Inr content"
  shows "generate_answer e query history service
           = (t1 @ t2 @ [Generate query context history],
              Inr (content, extract_reference_ids docs))
       \<and> build_context (take MAX_CONTEXT_DOCS docs) = Inr context
       \<and> (\<forall>d \<in> set docs. extract_step d {} \<subseteq> set (extract_reference_ids docs))
       \<and> set (extract_reference_ids (take MAX_CONTEXT_DOCS docs))
           \<subseteq> set (extract_reference_ids docs)
       \<and> (\<exists>ds. length ds > MAX_CONTEXT_DOCS
               \<and> \<not> set (extract_reference_ids ds)
                     \<subseteq> set (extract_reference_ids (take MAX_CONTEXT_DOCS ds)))"
proof (intro conjI)
  show "generate_answer e query history service
           = (t1 @ t2 @ [Generate query context history],
              Inr (content, extract_reference_ids docs))"
    using assms by (simp add: generate_answer_def io_bind_def io_return_def)
  show "build_context (take MAX_CONTEXT_DOCS docs) = Inr context"
    using assms(4) by (simp add: build_context_take)
  show "\<forall>d \<in> set docs. extract_step d {} \<subseteq> set (extract_reference_ids docs)"
    by (auto simp: set_extract_reference_ids)
  show "set (extract_reference_ids (take MAX_CONTEXT_DOCS docs))
           \<subseteq> set (extract_reference_ids docs)"
    by (rule extract_reference_ids_mono) (rule set_take_subset)
  have "length seven_docs > MAX_CONTEXT_DOCS"
    by (simp add: seven_docs_def MAX_CONTEXT_DOCS_def)
  moreover have "\<not> set (extract_reference_ids seven_docs)
                     \<subseteq> set (extract_reference_ids (take MAX_CONTEXT_DOCS seven_docs))"
    by code_simp
  ultimately show "\<exists>ds. length ds > MAX_CONTEXT_DOCS
               \<and> \<not> set (extract_reference_ids ds)
                     \<subseteq> set (extract_reference_ids (take MAX_CONTEXT_DOCS ds))"
    by blast
qed

text \<open>
  Two runs. In the first the index holds the seven numbered documents and returns all of
  them to the runbook search, more than the three asked for: the context holds the blocks
  of steps 1 to 6, and the reference IDs name all seven files. In the second the index
  holds a runbook and an incident and returns the one runbook: context and reference IDs
  come from that one document.
\<close>

theorem generate_answer_references_untruncated_witness:
  "classify_intent (example_env seven_docs ''runbook_lookup'') ''disk usage spikes''
     = ([Classify ''disk usage spikes''], Inr ''runbook_lookup'')
   \<and> route_query (example_env seven_docs ''runbook_lookup'') ''disk usage spikes''
       ''runbook_lookup'' None
     = ([Search (spec_filtered_search ''runbook'' None 3) ''disk usage spikes''],
        Inr seven_docs)
   \<and> seven_docs \<noteq> []
   \<and> build_context seven_docs = Inr seven_context
   \<and> rag_llm (example_env seven_docs ''runbook_lookup'') ''disk usage spikes'' seven_context []
     = Inr ''Follow the runbook.''
   \<and> generate_answer (example_env seven_docs ''runbook_lookup'') ''disk usage spikes'' [] None
     = ([Classify ''disk usage spikes'',
         Search (spec_filtered_search ''runbook'' None 3) ''disk usage spikes'',
         Generate ''disk usage spikes'' seven_context []],
        Inr (''Follow the runbook.'',
             [''step1.txt'', ''step2.txt'', ''step3.txt'', ''step4.txt'', ''step5.txt'',
              ''step6.txt'', ''step7.txt'']))
   \<and> build_context (take MAX_CONTEXT_DOCS seven_docs) = Inr seven_context
   \<and> extract_reference_ids (take MAX_CONTEXT_DOCS seven_docs)
     = [''step1.txt'', ''step2.txt'', ''step3.txt'', ''step4.txt'', ''step5.txt'',
        ''step6.txt'']
   \<and> generate_answer (example_env [disk_spike, incident_doc] ''runbook_lookup'')
       ''disk usage spikes'' [] None
     = ([Classify ''disk usage spikes'',
         Search (spec_filtered_search ''runbook'' None 3) ''disk usage spikes'',
         Generate ''disk usage spikes'' disk_context []],
        Inr (''Follow the runbook.'', [''disk_spike.txt'']))"
proof -
  have c: "classify_intent (example_env seven_docs ''runbook_lookup'') ''disk usage spikes''
     = ([Classify ''disk usage spikes''], Inr ''runbook_lookup'')"
    by (rule example_classify)
  have r: "route_query (example_env seven_docs ''runbook_lookup'') ''disk usage spikes''
       ''runbook_lookup'' None
     = ([Search (spec_filtered_search ''runbook'' None 3) ''disk usage spikes''],
        Inr seven_docs)"
    by code_simp
  have n: "seven_docs \<noteq> []"
    by (simp add: seven_docs_def)
  have b: "build_context seven_docs = Inr seven_context"
    by code_simp
  have g: "rag_llm (example_env seven_docs ''runbook_lookup'') ''disk usage spikes''
             seven_context [] = Inr ''Follow the runbook.''"
    by (simp add: example_env_def)
  have ids: "extract_reference_ids seven_docs
     = [''step1.txt'', ''step2.txt'', ''step3.txt'', ''step4.txt'', ''step5.txt'',
        ''step6.txt'', ''step7.txt'']"
    by code_simp
  have six: "extract_reference_ids (take MAX_CONTEXT_DOCS seven_docs)
     = [''step1.txt'', ''step2.txt'', ''step3.txt'', ''step4.txt'', ''step5.txt'',
        ''step6.txt'']"
    by code_simp
  have c': "classify_intent (example_env [disk_spike, incident_doc] ''runbook_lookup'')
              ''disk usage spikes''
     = ([Classify ''disk usage spikes''], Inr ''runbook_lookup'')"
    by (rule example_classify)
  have r': "route_query (example_env [disk_spike, incident_doc] ''runbook_lookup'')
              ''disk usage spikes'' ''runbook_lookup'' None
     = ([Search (spec_filtered_search ''runbook'' None 3) ''disk usage spikes''],
        Inr [disk_spike])"
    by code_simp
  have n': "[disk_spike] \<noteq> []"
    by simp
  have b': "build_context [disk_spike] = Inr disk_context"
    by code_simp
  have g': "rag_llm (example_env [disk_spike, incident_doc] ''runbook_lookup'')
              ''disk usage spikes'' disk_context [] = Inr ''Follow the runbook.''"
    by (simp add: example_env_def)
  have ids': "extract_reference_ids [disk_spike] = [''disk_spike.txt'']"
    by code_simp
  have one: "generate_answer (example_env seven_docs ''runbook_lookup'')
               ''disk usage spikes'' [] None
     = ([Classify ''disk usage spikes'',
         Search (spec_filtered_search ''runbook'' None 3) ''disk usage spikes'',
         Generate ''disk usage spikes'' seven_context []],
        Inr (''Follow the runbook.'',
             [''step1.txt'', ''step2.txt'', ''step3.txt'', ''step4.txt'', ''step5.txt'',
              ''step6.txt'', ''step7.txt'']))"
    using generate_answer_references_untruncated [OF c r n b g, THEN conjunct1]
    by (simp add: ids)
  have cut: "build_context (take MAX_CONTEXT_DOCS seven_docs) = Inr seven_context"
    using generate_answer_references_untruncated [OF c r n b g, THEN conjunct2, THEN conjunct1] .
  have two: "generate_answer (example_env [disk_spike, incident_doc] ''runbook_lookup'')
               ''disk usage spikes'' [] None
     = ([Classify ''disk usage spikes'',
         Search (spec_filtered_search ''runbook'' None 3) ''disk usage spikes'',
         Generate ''disk usage spikes'' disk_context []],
        Inr (''Follow the runbook.'', [''disk_spike.txt'']))"
    using generate_answer_references_untruncated [OF c' r' n' b' g', THEN conjunct1]
    by (simp add: ids')
  from c r n b g one cut six two show ?thesis
    by (intro conjI)
qed

section \<open>Retrieval modes\<close>

text \<open>
  C8, as amended. With the index loaded, \<open>get_base_retriever\<close> configures a similarity
  search with the score threshold 0.75 and no filter, and \<open>get_filtered_retriever\<close>
  configures a plain similarity search with no score threshold, which carries the filter
  when a non-empty one is supplied and is unfiltered otherwise. Every search the router
  issues comes from \<open>get_filtered_retriever\<close>: it is a plain similarity search without a
  threshold, also in the broad default branch when no service constrains it, where the
  search is unfiltered.
\<close>

theorem retrieval_modes:
  assumes "load_vector_index e = Inr vs"
  shows "(\<exists>k. get_base_retriever e top_k
                = Inr (vs, \<lparr>search_type = Similarity_score_threshold,
                            search_kwargs = \<lparr>kw_k = k, kw_filter = None,
                                              kw_score_threshold = Some 0.75\<rparr>\<rparr>))
       \<and> (\<exists>k. get_filtered_retriever e metadata_filter top_k
                = Inr (vs, \<lparr>search_type = Similarity,
                            search_kwargs =
                              \<lparr>kw_k = k,
                               kw_filter = (case metadata_filter of
                                              None \<Rightarrow> None
                                            | Some flt \<Rightarrow> if flt = [] then None else Some flt),
                               kw_score_threshold = None\<rparr>\<rparr>))
       \<and> (\<forall>ev \<in> set (fst (route_query e query intent service)).
             \<exists>r. ev = Search r query \<and> search_type r = Similarity
                  \<and> kw_score_threshold (search_kwargs r) = None)
       \<and> fst (route_query e query ''general_question'' None)
           = [Search \<lparr>search_type = Similarity,
                      search_kwargs = \<lparr>kw_k = 5, kw_filter = None,
                                        kw_score_threshold = None\<rparr>\<rparr> query]"
proof (intro conjI ballI)
  show "\<exists>k. get_base_retriever e top_k
                = Inr (vs, \<lparr>search_type = Similarity_score_threshold,
                            search_kwargs = \<lparr>kw_k = k, kw_filter = None,
                                              kw_score_threshold = Some 0.75\<rparr>\<rparr>)"
    using assms
    by (simp add: get_base_retriever_def get_vectorstore_def Let_def)
  show "\<exists>k. get_filtered_retriever e metadata_filter top_k
                = Inr (vs, \<lparr>search_type = Similarity,
                            search_kwargs =
                              \<lparr>kw_k = k,
                               kw_filter = (case metadata_filter of
                                              None \<Rightarrow> None
                                            | Some flt \<Rightarrow> if flt = [] then None else Some flt),
                               kw_score_threshold = None\<rparr>\<rparr>)"
    using assms
    by (simp add: get_filtered_retriever_def get_vectorstore_def Let_def
        split: option.splits)
  show "fst (route_query e query ''general_question'' None)
           = [Search \<lparr>search_type = Similarity,
                      search_kwargs = \<lparr>kw_k = 5, kw_filter = None,
                                        kw_score_threshold = None\<rparr>\<rparr> query]"
    using assms
    by (simp add: route_query_def retrieve_broad_search spec_broad_search_def
        spec_service_constraint_def)
next
  fix ev
  assume "ev \<in> set (fst (route_query e query intent service))"
  then show "\<exists>r. ev = Search r query \<and> search_type r = Similarity
                  \<and> kw_score_threshold (search_kwargs r) = None"
    by (rule route_query_events)
qed

text \<open>
  With the one-runbook index: the base retriever carries the threshold, the filtered
  retriever carries a service filter and no threshold, and the log search the router
  issues for the service \<open>trading-db\<close> is a filtered similarity search without threshold.
\<close>

theorem retrieval_modes_witness:
  "load_vector_index (example_env [disk_spike] ''log_analysis'') = Inr (example_store [disk_spike])
   \<and> get_base_retriever (example_env [disk_spike] ''log_analysis'') None
       = Inr (example_store [disk_spike],
              \<lparr>search_type = Similarity_score_threshold,
               search_kwargs = \<lparr>kw_k = 5, kw_filter = None,
                                 kw_score_threshold = Some 0.75\<rparr>\<rparr>)
   \<and> get_filtered_retriever (example_env [disk_spike] ''log_analysis'')
         (Some [(''service'', Plain (PStr ''trading-db''))]) None
       = Inr (example_store [disk_spike],
              \<lparr>search_type = Similarity,
               search_kwargs = \<lparr>kw_k = 5,
                                 kw_filter = Some [(''service'', Plain (PStr ''trading-db''))],
                                 kw_score_threshold = None\<rparr>\<rparr>)
   \<and> fst (route_query (example_env [disk_spike] ''log_analysis'') ''analyze these error logs''
            ''log_analysis'' (Some ''trading-db''))
       = [Search (spec_filtered_search ''log'' (Some ''trading-db'') 5)
            ''analyze these error logs'']
   \<and> search_type (spec_filtered_search ''log'' (Some ''trading-db'') 5) = Similarity
   \<and> kw_score_threshold (search_kwargs (spec_filtered_search ''log'' (Some ''trading-db'') 5))
       = None
   \<and> fst (route_query (example_env [disk_spike] ''log_analysis'') ''analyze these error logs''
            ''general_question'' None)
       = [Search \<lparr>search_type = Similarity,
                  search_kwargs = \<lparr>kw_k = 5, kw_filter = None,
                                    kw_score_threshold = None\<rparr>\<rparr> ''analyze these error logs'']"
proof -
  have h: "load_vector_index (example_env [disk_spike] ''log_analysis'')
             = Inr (example_store [disk_spike])"
    by (rule example_load)
  have t: "fst (route_query (example_env [disk_spike] ''log_analysis'')
                  ''analyze these error logs'' ''log_analysis'' (Some ''trading-db''))
       = [Search (spec_filtered_search ''log'' (Some ''trading-db'') 5)
            ''analyze these error logs'']"
    by (simp add: route_query_def retrieve_filtered_search_default [OF h])
  have k: "kw_k (search_kwargs (snd (projr (get_base_retriever
              (example_env [disk_spike] ''log_analysis'') None)))) = 5
         \<and> kw_k (search_kwargs (snd (projr (get_filtered_retriever
              (example_env [disk_spike] ''log_analysis'')
              (Some [(''service'', Plain (PStr ''trading-db''))]) None)))) = 5"
    by (simp add: get_base_retriever_def get_filtered_retriever_def get_vectorstore_def
        example_env_def RETRIEVER_TOP_K_def)
  show ?thesis
    using retrieval_modes [OF h, of None "Some [(''service'', Plain (PStr ''trading-db''))]"
        "''analyze these error logs''" "''log_analysis''" "Some ''trading-db''"] h t k
    by (auto simp: spec_filtered_search_def)
qed

text \<open>
  The claim as stated fails in the broad default branch: for the intent
  \<open>general_question\<close> and no service, the router issues an unfiltered search, and that
  search is a plain similarity search with no score threshold.
\<close>

theorem unfiltered_search_counterexample:
  "route_query (example_env [disk_spike] ''general_question'')
      ''what is the weather today?'' ''general_question'' None
    = ([Search \<lparr>search_type = Similarity,
                 search_kwargs = \<lparr>kw_k = 5, kw_filter = None, kw_score_threshold = None\<rparr>\<rparr>
          ''what is the weather today?''],
       Inr [disk_spike])"
  by (simp add: route_query_def retrieve_with_filter_def get_filtered_retriever_def
      get_vectorstore_def invoke_def build_metadata_filter_def example_env_def
      example_store_def example_matches_def RETRIEVER_TOP_K_def)

end
